theory Spec2Isabelle
  imports Main "HOL-Library.Sublist"
begin

section \<open>MyPair: the pairing route of \<open>src/pair.js\<close>\<close>

text \<open>
  The file exports one express router with a single \<open>GET /\<close> handler. The handler is an
  async function; every \<open>await\<close> is a point where it yields to the event loop. The
  model below follows that shape: the code between two awaits is one atomic segment, a
  suspended async function is a continuation kept in the state, and the environment
  (timers, the file system, the protocol socket) drives the machine through labels.
\<close>

subsection \<open>Constants (lines 17-18)\<close>

definition SESSION_TIMEOUT :: nat where
  "SESSION_TIMEOUT = 300000"

definition RECONNECT_INTERVAL :: nat where
  "RECONNECT_INTERVAL = 5000"

subsection \<open>\<open>formatPhoneNumber\<close> (lines 28-43)\<close>

text \<open>
  \<open>\d\<close> in a JavaScript regular expression is the ASCII class \<open>[0-9]\<close>. A character of
  the model is a byte; every byte outside \<open>[0-9+]\<close> is dropped by the first replace, as
  every UTF-16 unit outside that class is in the source.
\<close>

definition is_digit :: "char \<Rightarrow> bool" where
  "is_digit c \<longleftrightarrow> 48 \<le> (of_char c :: nat) \<and> (of_char c :: nat) \<le> 57"

definition is_nonzero_digit :: "char \<Rightarrow> bool" where
  "is_nonzero_digit c \<longleftrightarrow> 49 \<le> (of_char c :: nat) \<and> (of_char c :: nat) \<le> 57"

definition keep_char :: "char \<Rightarrow> bool" where
  \<comment> \<open>the complement of the class \<open>[^\d+]\<close>\<close>
  "keep_char c \<longleftrightarrow> is_digit c \<or> c = CHR ''+''"

fun startsWith_plus :: "string \<Rightarrow> bool" where
  "startsWith_plus [] = False"
| "startsWith_plus (c # cs) = (c = CHR ''+'')"

fun country_code_match :: "string \<Rightarrow> bool" where
  \<comment> \<open>\<open>/^[1-9]\d{1,2}/\<close>: a non-zero digit, then one digit (a second one is optional)\<close>
  "country_code_match (a # b # cs) = (is_nonzero_digit a \<and> is_digit b)"
| "country_code_match cs = False"

definition formatPhoneNumber :: "string \<Rightarrow> string" where
  "formatPhoneNumber num =
     (let formatted = filter keep_char num;
          formatted = (if startsWith_plus formatted then drop 1 formatted else formatted);
          formatted = (if \<not> country_code_match formatted then ''62'' @ formatted else formatted)
      in formatted)"

subsection \<open>The world outside the handler\<close>

text \<open>
  The source handles paths as strings: \<open>path.join\<close> joins its arguments with a slash and
  normalizes the result, and the \<open>fs\<close> calls resolve what they are given. Both read a path
  segment by segment: an empty segment (a doubled or trailing slash) and \<open>.\<close> stay in
  place, \<open>..\<close> leaves the last directory entered (and stays at the root). The model keeps
  the place a path denotes, the list of the directory names from the root, so two
  spellings of one place are one path. Paths are POSIX paths (the slash is the only
  separator), \<open>process.cwd()\<close> is absolute, and symbolic links are not modelled.
\<close>

type_synonym path = "string list"

fun segments :: "string \<Rightarrow> string list" where
  \<comment> \<open>the pieces between the slashes\<close>
  "segments [] = [[]]"
| "segments (c # cs) =
     (if c = CHR ''/'' then [] # segments cs
      else (case segments cs of
              [] \<Rightarrow> [[c]]
            | seg # segs \<Rightarrow> (c # seg) # segs))"

fun enter :: "string list \<Rightarrow> string list \<Rightarrow> string list" where
  \<comment> \<open>\<open>enter up segs\<close>: walk the segments from the directory whose names, innermost
      first, are \<open>up\<close>\<close>
  "enter up [] = rev up"
| "enter up (seg # segs) =
     (if seg = [] \<or> seg = ''.'' then enter up segs
      else if seg = ''..'' then enter (tl up) segs
      else enter (seg # up) segs)"

definition resolve :: "string \<Rightarrow> path" where
  "resolve p = enter [] (segments p)"

definition path_join :: "path \<Rightarrow> string \<Rightarrow> path" where
  \<comment> \<open>the place of \<open>path.join(base, rel)\<close>\<close>
  "path_join base rel = enter (rev base) (segments rel)"

datatype node = Dir | File string

type_synonym filesystem = "path \<Rightarrow> node option"

definition within :: "path \<Rightarrow> path \<Rightarrow> bool" where
  \<comment> \<open>\<open>p\<close> is \<open>dir\<close> itself or lies below it\<close>
  "within dir p \<longleftrightarrow> prefix dir p"

definition rm_rf :: "path \<Rightarrow> filesystem \<Rightarrow> filesystem" where
  \<comment> \<open>\<open>fs.rm(dir, { recursive: true, force: true })\<close> when it succeeds; with \<open>force\<close> a
      missing path is not an error\<close>
  "rm_rf dir files = (\<lambda>p. if within dir p then None else files p)"

definition mkdir :: "path \<Rightarrow> filesystem \<Rightarrow> filesystem" where
  "mkdir dir files = (case files dir of None \<Rightarrow> files(dir \<mapsto> Dir) | Some n \<Rightarrow> files)"

definition readFile :: "string option \<Rightarrow> path \<Rightarrow> filesystem \<Rightarrow> (string + string) option" where
  \<comment> \<open>\<open>Inl\<close> is the rejection's \<open>error.message\<close>, which the environment supplies; a read
      cannot resolve unless a file is there (\<open>None\<close>)\<close>
  "readFile failure p files =
     (case failure of
        Some msg \<Rightarrow> Some (Inl msg)
      | None \<Rightarrow> (case files p of
                   Some (File c) \<Rightarrow> Some (Inr c)
                 | Some Dir \<Rightarrow> None
                 | None \<Rightarrow> None))"

datatype level = Info | Warn | Error | Fatal

datatype body =
    ErrorBody string      \<comment> \<open>\<open>{ error: ... }\<close>\<close>
  | PairingBody string    \<comment> \<open>\<open>{ status: 'pairing', pairingCode: ..., message: ... }\<close>\<close>

datatype message =
    Document string string string   \<comment> \<open>document, mimetype, fileName\<close>
  | Text string

datatype effect =
    Log level string
  | Rm path
  | UseMultiFileAuthState path
  | MakeWASocket nat                \<comment> \<open>\<open>connectTimeout\<close>\<close>
  | Delay nat
  | RequestPairingCode string
  | Respond nat body
  | On string
  | SetTimeout nat
  | ReadFile path
  | SendMessage string message
  | RouterGet string
  | Exit nat

text \<open>
  What the source takes from outside and only uses: the string \<open>process.cwd()\<close> returns,
  Baileys' \<open>jidNormalizedUser\<close>, and the text of the error express throws when
  \<open>router.get\<close> is given something that is not a function (as \<open>String(reason)\<close> renders
  it on line 183). Every theorem holds for any choice of them.
\<close>

record env =
  cwd :: string
  jidNormalizedUser :: "string \<Rightarrow> string"
  router_get_error :: string

text \<open>
  A continuation names the await at which an async function is suspended, with the
  constants of that function that are still needed afterwards.
\<close>

datatype kont =
    AfterInitialCleanup             \<comment> \<open>line 54\<close>
  | AfterAuthState                  \<comment> \<open>line 56\<close>
  | AfterGraceDelay                 \<comment> \<open>line 72\<close>
  | AfterPairingRequest             \<comment> \<open>line 76\<close>
  | AfterPairingCleanup             \<comment> \<open>line 84\<close>
  | AfterSettleDelay string path    \<comment> \<open>line 103: \<open>userJid\<close>, \<open>credsPath\<close>\<close>
  | AfterReadFile string path       \<comment> \<open>line 106\<close>
  | AfterDocumentSend string string \<comment> \<open>line 107: \<open>userJid\<close>, \<open>sessionData\<close>\<close>
  | AfterAdvisorySend string        \<comment> \<open>line 114\<close>
  | AfterFinalDelay                 \<comment> \<open>line 122\<close>
  | AfterSuccessCleanup             \<comment> \<open>line 123\<close>
  | AfterFailureCleanup             \<comment> \<open>line 128\<close>
  | AfterBackoff                    \<comment> \<open>line 136\<close>
  | AfterAuthFailureCleanup         \<comment> \<open>line 140\<close>
  | AfterTimeoutCleanup             \<comment> \<open>line 149\<close>

text \<open>How an awaited operation settles.\<close>

datatype outcome =
    Done                  \<comment> \<open>resolved, no value of interest\<close>
  | Failed string         \<comment> \<open>rejected, with \<open>error.message\<close>\<close>
  | AuthLoaded bool       \<comment> \<open>\<open>useMultiFileAuthState\<close> resolved and \<open>makeWASocket\<close> returned;
                              the flag is \<open>sock.authState.creds.registered\<close>\<close>
  | SocketFailed string   \<comment> \<open>\<open>useMultiFileAuthState\<close> resolved, \<open>makeWASocket\<close> threw\<close>
  | Code string           \<comment> \<open>\<open>requestPairingCode\<close> resolved with the code\<close>

datatype connection = Open | Close | Connecting | Unset

datatype label =
    Settle nat outcome                     \<comment> \<open>the operation awaited by the i-th suspended
                                               function settles\<close>
  | ConnectionUpdate connection "int option" \<comment> \<open>\<open>connection\<close> and
                                               \<open>lastDisconnect?.error?.output?.statusCode\<close>\<close>
  | CredsUpdate string                     \<comment> \<open>the socket emits \<open>creds.update\<close>\<close>
  | Timeout                                \<comment> \<open>the timer of line 146 fires\<close>
  | Registered bool                        \<comment> \<open>the socket library rewrites
                                               \<open>creds.registered\<close>\<close>

record state =
  fs :: filesystem
  number :: string                  \<comment> \<open>the handler's \<open>number\<close> (reassigned on line 73)\<close>
  sessionDir :: path
  registered :: bool                \<comment> \<open>\<open>sock.authState.creds.registered\<close>\<close>
  creds_listener :: bool            \<comment> \<open>line 90 has run\<close>
  conn_listener :: bool             \<comment> \<open>line 92 has run\<close>
  timer :: "nat option"             \<comment> \<open>line 146 has run and the timer has not fired\<close>
  pending :: "kont list"
  responses :: "(nat \<times> body) list"  \<comment> \<open>what was written to \<open>res\<close>: status and JSON body\<close>
  exited :: "nat option"            \<comment> \<open>\<open>process.exit\<close>\<close>
  trace :: "effect list"            \<comment> \<open>the calls made, in order\<close>

definition initial :: "filesystem \<Rightarrow> state" where
  "initial files =
     \<lparr>fs = files, number = [], sessionDir = [], registered = False,
      creds_listener = False, conn_listener = False, timer = None, pending = [],
      responses = [], exited = None, trace = []\<rparr>"

definition emit :: "effect \<Rightarrow> state \<Rightarrow> state" where
  "emit e s = s\<lparr>trace := trace s @ [e]\<rparr>"

definition logger :: "level \<Rightarrow> string \<Rightarrow> state \<Rightarrow> state" where
  "logger l msg s = emit (Log l msg) s"

definition suspend :: "kont \<Rightarrow> state \<Rightarrow> state" where
  "suspend k s = s\<lparr>pending := pending s @ [k]\<rparr>"

definition headersSent :: "state \<Rightarrow> bool" where
  "headersSent s \<longleftrightarrow> responses s \<noteq> []"

definition respond :: "nat \<Rightarrow> body \<Rightarrow> state \<Rightarrow> state" where
  \<comment> \<open>\<open>res.status(code).json(b)\<close>\<close>
  "respond code b s = emit (Respond code b) (s\<lparr>responses := responses s @ [(code, b)]\<rparr>)"

definition process_exit :: "nat \<Rightarrow> state \<Rightarrow> state" where
  "process_exit code s = emit (Exit code) (s\<lparr>exited := Some code\<rparr>)"

subsection \<open>\<open>cleanupSession\<close> (lines 20-26)\<close>

definition fs_rm :: "string option \<Rightarrow> path \<Rightarrow> state \<Rightarrow> string + state" where
  \<comment> \<open>the awaited \<open>fs.rm\<close>: it rejects with a message (the files are then taken to be
      as they were), or the tree is gone\<close>
  "fs_rm failure dir s =
     (case failure of
        Some msg \<Rightarrow> Inl msg
      | None \<Rightarrow> Inr (s\<lparr>fs := rm_rf dir (fs s)\<rparr>))"

definition cleanupSession :: "string option \<Rightarrow> path \<Rightarrow> state \<Rightarrow> string + state" where
  \<comment> \<open>\<open>Inl\<close> would be an exception leaving the function\<close>
  "cleanupSession failure dir s =
     (case fs_rm failure dir (emit (Rm dir) s) of
        Inr s' \<Rightarrow> Inr s'
      | Inl msg \<Rightarrow> Inr (logger Error (''Error cleaning up session: '' @ msg) (emit (Rm dir) s)))"

fun rejection :: "outcome \<Rightarrow> string option option" where
  "rejection Done = Some None"
| "rejection (Failed msg) = Some (Some msg)"
| "rejection out = None"

subsection \<open>The request handler (lines 45-162)\<close>

text \<open>
  \<open>req.query.number\<close> is absent or a string; \<open>!number\<close> holds when it is absent or
  empty. The handler runs up to its first await, on the first \<open>cleanupSession\<close>.
\<close>

definition initialization_error :: "string \<Rightarrow> state \<Rightarrow> state" where
  \<comment> \<open>the outer catch, lines 156-161\<close>
  "initialization_error msg s =
     (let s1 = logger Error (''Initialization error: '' @ msg) s
      in if \<not> headersSent s1
         then respond 500 (ErrorBody ''Failed to initialize session'') s1
         else s1)"

definition sessionDir_of :: "env \<Rightarrow> string \<Rightarrow> path" where
  \<comment> \<open>line 53, from the number as the query gives it\<close>
  "sessionDir_of e n = path_join (resolve (cwd e)) (''session_'' @ n)"

definition handler :: "env \<Rightarrow> string option \<Rightarrow> filesystem \<Rightarrow> state" where
  "handler e q files =
     (case q of
        None \<Rightarrow> respond 400 (ErrorBody ''Phone number is required'') (initial files)
      | Some n \<Rightarrow>
          if n = [] then respond 400 (ErrorBody ''Phone number is required'') (initial files)
          else suspend AfterInitialCleanup
                 ((initial files)\<lparr>number := n,
                    sessionDir := sessionDir_of e n\<rparr>))"

definition install_handlers :: "state \<Rightarrow> state" where
  \<comment> \<open>lines 90, 92 and 146: the two listeners and the timer\<close>
  "install_handlers s =
     emit (SetTimeout SESSION_TIMEOUT)
       (emit (On ''connection.update'')
         (emit (On ''creds.update'')
           (s\<lparr>creds_listener := True, conn_listener := True,
              timer := Some SESSION_TIMEOUT\<rparr>)))"

definition transfer_error :: "string \<Rightarrow> state \<Rightarrow> state" where
  \<comment> \<open>the catch of lines 126-130, up to its await\<close>
  "transfer_error msg s =
     suspend AfterFailureCleanup (logger Error (''Session transfer error: '' @ msg) s)"

definition unhandledRejection :: "string \<Rightarrow> state \<Rightarrow> state" where
  \<comment> \<open>lines 182-184: a rejected promise nobody awaits\<close>
  "unhandledRejection reason s = logger Error (''Unhandled Rejection: '' @ reason) s"

definition advisory :: string where
  \<comment> \<open>the text of lines 115-118; the two pictographs as their UTF-8 bytes\<close>
  "advisory =
     ''*Important Instructions*'' @ [CHR 0x0A, CHR 0x0A] @
     [CHR 0xF0, CHR 0x9F, CHR 0x94, CHR 0x92] @ '' Keep your session file secure'' @ [CHR 0x0A] @
     [CHR 0xE2, CHR 0x98, CHR 0xA0, CHR 0xEF, CHR 0xB8, CHR 0x8F] @ '' NEVER SHARE WITH ANYONE'' @
     [CHR 0x0A, CHR 0x0A] @
     ''Contact developer: wa.me/263777124998''"

text \<open>
  \<open>resume e k out s\<close> runs the function suspended at \<open>k\<close> from the moment its awaited
  operation settles with \<open>out\<close> up to its next await (or its end). The awaited call is
  recorded in the trace when it settles. \<open>None\<close>: the operation cannot settle that way.

  Line 137 is \<open>router.get('/', req, res)\<close>: the route-registration method of the express
  router, the one line 45 uses to install the handler, called with the request and the
  response object in place of callbacks. It does not run the handler of line 45: express
  throws, the listener's promise rejects, and the process-wide handler of line 182 logs
  the rejection.
\<close>

fun resume :: "env \<Rightarrow> kont \<Rightarrow> outcome \<Rightarrow> state \<Rightarrow> state option" where
  "resume e AfterInitialCleanup out s =
     (case rejection out of
        None \<Rightarrow> None
      | Some r \<Rightarrow>
          Some (case cleanupSession r (sessionDir s) s of
                  Inl msg \<Rightarrow> initialization_error msg s
                | Inr s1 \<Rightarrow> suspend AfterAuthState s1))"
| "resume e AfterAuthState out s =
     (case out of
        Failed msg \<Rightarrow>
          Some (initialization_error msg (emit (UseMultiFileAuthState (sessionDir s)) s))
      | SocketFailed msg \<Rightarrow>
          Some (initialization_error msg
                  (emit (MakeWASocket SESSION_TIMEOUT)
                    (emit (UseMultiFileAuthState (sessionDir s))
                      (s\<lparr>fs := mkdir (sessionDir s) (fs s)\<rparr>))))
      | AuthLoaded reg \<Rightarrow>
          Some (let s1 = emit (MakeWASocket SESSION_TIMEOUT)
                           (emit (UseMultiFileAuthState (sessionDir s))
                             (s\<lparr>fs := mkdir (sessionDir s) (fs s), registered := reg\<rparr>))
                in if \<not> registered s1 then suspend AfterGraceDelay s1
                   else install_handlers s1)
      | _ \<Rightarrow> None)"
| "resume e AfterGraceDelay out s =
     (case out of
        Done \<Rightarrow>
          Some (suspend AfterPairingRequest
                  ((emit (Delay 2000) s)\<lparr>number := formatPhoneNumber (number s)\<rparr>))
      | _ \<Rightarrow> None)"
| "resume e AfterPairingRequest out s =
     (case out of
        Code c \<Rightarrow>
          Some (respond 200 (PairingBody c) (emit (RequestPairingCode (number s)) s))
      | Failed msg \<Rightarrow>
          Some (suspend AfterPairingCleanup
                  (logger Error (''Pairing error: '' @ msg)
                    (emit (RequestPairingCode (number s)) s)))
      | _ \<Rightarrow> None)"
| "resume e AfterPairingCleanup out s =
     (case rejection out of
        None \<Rightarrow> None
      | Some r \<Rightarrow>
          Some (case cleanupSession r (sessionDir s) s of
                  Inl msg \<Rightarrow> initialization_error msg s
                | Inr s1 \<Rightarrow> respond 500 (ErrorBody ''Failed to generate pairing code'') s1))"
| "resume e (AfterSettleDelay jid p) out s =
     (case out of
        Done \<Rightarrow> Some (suspend (AfterReadFile jid p) (emit (Delay 5000) s))
      | _ \<Rightarrow> None)"
| "resume e (AfterReadFile jid p) out s =
     (case rejection out of
        None \<Rightarrow> None
      | Some r \<Rightarrow>
          (case readFile r p (fs s) of
             None \<Rightarrow> None
           | Some (Inl msg) \<Rightarrow> Some (transfer_error msg (emit (ReadFile p) s))
           | Some (Inr sessionData) \<Rightarrow>
               Some (suspend (AfterDocumentSend jid sessionData) (emit (ReadFile p) s))))"
| "resume e (AfterDocumentSend jid sessionData) out s =
     (let s1 = emit (SendMessage jid
                       (Document sessionData ''application/json'' ''creds.json'')) s
      in case out of
           Done \<Rightarrow> Some (suspend (AfterAdvisorySend jid) s1)
         | Failed msg \<Rightarrow> Some (transfer_error msg s1)
         | _ \<Rightarrow> None)"
| "resume e (AfterAdvisorySend jid) out s =
     (let s1 = emit (SendMessage jid (Text advisory)) s
      in case out of
           Done \<Rightarrow> Some (suspend AfterFinalDelay s1)
         | Failed msg \<Rightarrow> Some (transfer_error msg s1)
         | _ \<Rightarrow> None)"
| "resume e AfterFinalDelay out s =
     (case out of
        Done \<Rightarrow> Some (suspend AfterSuccessCleanup (emit (Delay 1000) s))
      | _ \<Rightarrow> None)"
| "resume e AfterSuccessCleanup out s =
     (case rejection out of
        None \<Rightarrow> None
      | Some r \<Rightarrow>
          Some (case cleanupSession r (sessionDir s) s of
                  Inl msg \<Rightarrow> transfer_error msg s
                | Inr s1 \<Rightarrow> process_exit 0 s1))"
| "resume e AfterFailureCleanup out s =
     (case rejection out of
        None \<Rightarrow> None
      | Some r \<Rightarrow>
          Some (case cleanupSession r (sessionDir s) s of
                  Inl msg \<Rightarrow> s
                | Inr s1 \<Rightarrow> process_exit 1 s1))"
| "resume e AfterBackoff out s =
     (case out of
        Done \<Rightarrow>
          Some (unhandledRejection (router_get_error e)
                  (emit (RouterGet ''/'') (emit (Delay RECONNECT_INTERVAL) s)))
      | _ \<Rightarrow> None)"
| "resume e AfterAuthFailureCleanup out s =
     (case rejection out of
        None \<Rightarrow> None
      | Some r \<Rightarrow>
          Some (case cleanupSession r (sessionDir s) s of
                  Inl msg \<Rightarrow> s
                | Inr s1 \<Rightarrow> s1))"
| "resume e AfterTimeoutCleanup out s =
     (case rejection out of
        None \<Rightarrow> None
      | Some r \<Rightarrow>
          Some (case cleanupSession r (sessionDir s) s of
                  Inl msg \<Rightarrow> s
                | Inr s1 \<Rightarrow>
                    if \<not> headersSent s1
                    then respond 408 (ErrorBody ''Session initialization timed out'') s1
                    else s1))"

subsection \<open>The listeners and the timer (lines 90-154)\<close>

definition userJid :: "env \<Rightarrow> state \<Rightarrow> string" where
  \<comment> \<open>line 99\<close>
  "userJid e s = jidNormalizedUser e (number s @ ''@s.whatsapp.net'')"

definition credsPath :: "state \<Rightarrow> path" where
  \<comment> \<open>line 100\<close>
  "credsPath s = path_join (sessionDir s) ''creds.json''"

definition connection_update :: "env \<Rightarrow> connection \<Rightarrow> int option \<Rightarrow> state \<Rightarrow> state" where
  \<comment> \<open>the listener of line 92, up to its first await; \<open>undefined !== 401\<close> holds, so
      a close event without a status code takes the reconnect branch\<close>
  "connection_update e c statusCode s =
     (if c = Open then
        suspend (AfterSettleDelay (userJid e s) (credsPath s))
          (logger Info ''Connection established'' s)
      else if c = Close then
        (if statusCode \<noteq> Some 401
         then suspend AfterBackoff (logger Info ''Attempting to reconnect...'' s)
         else suspend AfterAuthFailureCleanup
                (logger Error ''Authentication failed, please restart'' s))
      else s)"

definition saveCreds :: "string \<Rightarrow> state \<Rightarrow> state" where
  \<comment> \<open>the sink returned by \<open>useMultiFileAuthState\<close>: it writes \<open>creds.json\<close> into the
      session directory, and fails when the directory is gone\<close>
  "saveCreds c s =
     (case fs s (sessionDir s) of
        Some Dir \<Rightarrow> s\<lparr>fs := (fs s)(credsPath s \<mapsto> File c)\<rparr>
      | _ \<Rightarrow> s)"

definition timeout_callback :: "state \<Rightarrow> state" where
  \<comment> \<open>lines 146-154, up to the await of line 149\<close>
  "timeout_callback s =
     (if \<not> registered s
      then suspend AfterTimeoutCleanup (logger Warn ''Session initialization timed out'' s)
      else s)"

subsection \<open>The event loop\<close>

definition remove_nth :: "nat \<Rightarrow> 'a list \<Rightarrow> 'a list" where
  "remove_nth i xs = take i xs @ drop (Suc i) xs"

definition step :: "env \<Rightarrow> label \<Rightarrow> state \<Rightarrow> state" where
  "step e l s =
     (if exited s \<noteq> None then s
      else case l of
        Settle i out \<Rightarrow>
          (if i < length (pending s)
           then (case resume e (pending s ! i) out (s\<lparr>pending := remove_nth i (pending s)\<rparr>) of
                   Some s' \<Rightarrow> s'
                 | None \<Rightarrow> s)
           else s)
      | ConnectionUpdate c statusCode \<Rightarrow>
          (if conn_listener s then connection_update e c statusCode s else s)
      | CredsUpdate c \<Rightarrow> (if creds_listener s then saveCreds c s else s)
      | Timeout \<Rightarrow>
          (case timer s of
             Some t \<Rightarrow> timeout_callback (s\<lparr>timer := None\<rparr>)
           | None \<Rightarrow> s)
      | Registered b \<Rightarrow> s\<lparr>registered := b\<rparr>)"

fun exec :: "env \<Rightarrow> label list \<Rightarrow> state \<Rightarrow> state" where
  "exec e [] s = s"
| "exec e (l # ls) s = exec e ls (step e l s)"

subsection \<open>Runs of one async function\<close>

text \<open>
  \<open>request\<close> is the handler run on its own: each listed outcome settles the await it is
  suspended on. \<open>uninterrupted\<close> does the same for a listener or the timer callback
  started by a label, in a state where other functions may be suspended already: the new
  continuation is the last one.
\<close>

fun settled :: "string option \<Rightarrow> outcome" where
  "settled None = Done"
| "settled (Some msg) = Failed msg"

definition request :: "env \<Rightarrow> string option \<Rightarrow> filesystem \<Rightarrow> outcome list \<Rightarrow> state" where
  "request e q files outs = exec e (map (Settle 0) outs) (handler e q files)"

definition uninterrupted :: "env \<Rightarrow> label \<Rightarrow> outcome list \<Rightarrow> state \<Rightarrow> state" where
  "uninterrupted e l outs s = exec e (l # map (Settle (length (pending s))) outs) s"

text \<open>What one call of \<open>cleanupSession\<close> adds to the trace and does to the files.\<close>

fun cleanup_calls :: "string option \<Rightarrow> path \<Rightarrow> effect list" where
  "cleanup_calls None dir = [Rm dir]"
| "cleanup_calls (Some msg) dir = [Rm dir, Log Error (''Error cleaning up session: '' @ msg)]"

fun cleanup_fs :: "string option \<Rightarrow> path \<Rightarrow> filesystem \<Rightarrow> filesystem" where
  "cleanup_fs None dir files = rm_rf dir files"
| "cleanup_fs (Some msg) dir files = files"

subsection \<open>A concrete deployment\<close>

text \<open>
  An environment and a file system to run the model on: the process runs in \<open>/app\<close>,
  the address is already normal, express words its error as version 4 does, and the
  numbers \<open>1\<close>, \<open>2\<close> and \<open>1/x\<close> have session directories.
\<close>

definition example_env :: env where
  "example_env =
     \<lparr>cwd = ''/app'', jidNormalizedUser = (\<lambda>jid. jid),
      router_get_error =
        ''Error: Route.get() requires a callback function but got a [object Object]''\<rparr>"

definition example_files :: filesystem where
  "example_files =
     (Map.empty([''app'', ''session_1''] \<mapsto> Dir,
                [''app'', ''session_1'', ''creds.json''] \<mapsto> File ''{}'',
                [''app'', ''session_1'', ''x''] \<mapsto> Dir,
                [''app'', ''session_1'', ''x'', ''creds.json''] \<mapsto> File ''{}'',
                [''app'', ''session_2''] \<mapsto> Dir))"

subsection \<open>Predicates on states\<close>

fun handler_kont :: "kont \<Rightarrow> bool" where
  \<comment> \<open>the awaits of the request handler itself\<close>
  "handler_kont AfterInitialCleanup = True"
| "handler_kont AfterAuthState = True"
| "handler_kont AfterGraceDelay = True"
| "handler_kont AfterPairingRequest = True"
| "handler_kont AfterPairingCleanup = True"
| "handler_kont k = False"

definition at_most_one :: "state \<Rightarrow> bool" where
  \<comment> \<open>while the handler is suspended it is the only suspended function, nothing has been
      written to \<open>res\<close>, and neither the timer nor the listener exists yet\<close>
  "at_most_one s \<longleftrightarrow>
     length (responses s) \<le> 1 \<and>
     (if list_ex handler_kont (pending s)
      then length (pending s) = 1 \<and> responses s = [] \<and> timer s = None \<and> \<not> conn_listener s
      else True)"

definition idle :: "state \<Rightarrow> bool" where
  \<comment> \<open>nothing is suspended, no listener is installed and no timer is armed\<close>
  "idle s \<longleftrightarrow>
     pending s = [] \<and> \<not> conn_listener s \<and> \<not> creds_listener s \<and> timer s = None"

section \<open>Properties\<close>

subsection \<open>Projections of the state operations\<close>

lemma emit_proj [simp]:
  "fs (emit x s) = fs s" "number (emit x s) = number s" "sessionDir (emit x s) = sessionDir s"
  "registered (emit x s) = registered s" "creds_listener (emit x s) = creds_listener s"
  "conn_listener (emit x s) = conn_listener s" "timer (emit x s) = timer s"
  "pending (emit x s) = pending s" "responses (emit x s) = responses s"
  "exited (emit x s) = exited s" "trace (emit x s) = trace s @ [x]"
  by (simp_all add: emit_def)

lemma logger_proj [simp]:
  "fs (logger l m s) = fs s" "number (logger l m s) = number s"
  "sessionDir (logger l m s) = sessionDir s"
  "registered (logger l m s) = registered s" "creds_listener (logger l m s) = creds_listener s"
  "conn_listener (logger l m s) = conn_listener s" "timer (logger l m s) = timer s"
  "pending (logger l m s) = pending s" "responses (logger l m s) = responses s"
  "exited (logger l m s) = exited s" "trace (logger l m s) = trace s @ [Log l m]"
  by (simp_all add: logger_def)

lemma suspend_proj [simp]:
  "fs (suspend k s) = fs s" "number (suspend k s) = number s"
  "sessionDir (suspend k s) = sessionDir s"
  "registered (suspend k s) = registered s" "creds_listener (suspend k s) = creds_listener s"
  "conn_listener (suspend k s) = conn_listener s" "timer (suspend k s) = timer s"
  "pending (suspend k s) = pending s @ [k]" "responses (suspend k s) = responses s"
  "exited (suspend k s) = exited s" "trace (suspend k s) = trace s"
  by (simp_all add: suspend_def)

lemma respond_proj [simp]:
  "fs (respond c b s) = fs s" "number (respond c b s) = number s"
  "sessionDir (respond c b s) = sessionDir s"
  "registered (respond c b s) = registered s" "creds_listener (respond c b s) = creds_listener s"
  "conn_listener (respond c b s) = conn_listener s" "timer (respond c b s) = timer s"
  "pending (respond c b s) = pending s" "responses (respond c b s) = responses s @ [(c, b)]"
  "exited (respond c b s) = exited s" "trace (respond c b s) = trace s @ [Respond c b]"
  by (simp_all add: respond_def)

lemma process_exit_proj [simp]:
  "fs (process_exit c s) = fs s" "number (process_exit c s) = number s"
  "sessionDir (process_exit c s) = sessionDir s"
  "registered (process_exit c s) = registered s"
  "creds_listener (process_exit c s) = creds_listener s"
  "conn_listener (process_exit c s) = conn_listener s" "timer (process_exit c s) = timer s"
  "pending (process_exit c s) = pending s" "responses (process_exit c s) = responses s"
  "exited (process_exit c s) = Some c" "trace (process_exit c s) = trace s @ [Exit c]"
  by (simp_all add: process_exit_def)

lemma initialization_error_proj [simp]:
  "pending (initialization_error m s) = pending s"
  "timer (initialization_error m s) = timer s"
  "conn_listener (initialization_error m s) = conn_listener s"
  "responses (initialization_error m s) =
     (if responses s = [] then [(500, ErrorBody ''Failed to initialize session'')]
      else responses s)"
  by (simp_all add: initialization_error_def headersSent_def Let_def)

lemma unhandledRejection_proj [simp]:
  "fs (unhandledRejection m s) = fs s" "pending (unhandledRejection m s) = pending s"
  "responses (unhandledRejection m s) = responses s"
  "timer (unhandledRejection m s) = timer s"
  "conn_listener (unhandledRejection m s) = conn_listener s"
  "exited (unhandledRejection m s) = exited s"
  "trace (unhandledRejection m s) = trace s @ [Log Error (''Unhandled Rejection: '' @ m)]"
  by (simp_all add: unhandledRejection_def)

lemma install_handlers_proj [simp]:
  "pending (install_handlers s) = pending s"
  "responses (install_handlers s) = responses s"
  "timer (install_handlers s) = Some SESSION_TIMEOUT"
  "conn_listener (install_handlers s) = True"
  by (simp_all add: install_handlers_def)

lemma transfer_error_proj [simp]:
  "pending (transfer_error m s) = pending s @ [AfterFailureCleanup]"
  "responses (transfer_error m s) = responses s"
  by (simp_all add: transfer_error_def)

lemma connection_update_proj [simp]:
  "responses (connection_update e c st s) = responses s"
  "list_ex handler_kont (pending (connection_update e c st s)) =
     list_ex handler_kont (pending s)"
  by (simp_all add: connection_update_def)

lemma saveCreds_proj [simp]:
  "responses (saveCreds c s) = responses s"
  "pending (saveCreds c s) = pending s"
  "timer (saveCreds c s) = timer s"
  "conn_listener (saveCreds c s) = conn_listener s"
  by (simp_all add: saveCreds_def split: option.splits node.splits)

lemma timeout_callback_proj [simp]:
  "responses (timeout_callback s) = responses s"
  "list_ex handler_kont (pending (timeout_callback s)) = list_ex handler_kont (pending s)"
  by (simp_all add: timeout_callback_def)

lemma rejection_settled [simp]: "rejection (settled r) = Some r"
  by (cases r) simp_all

lemma remove_nth_last [simp]: "remove_nth (length xs) (xs @ [k]) = xs"
  by (simp add: remove_nth_def)

lemma remove_nth_keeps: "\<not> list_ex P xs \<Longrightarrow> \<not> list_ex P (remove_nth i xs)"
  by (auto simp: remove_nth_def list_ex_iff dest: in_set_takeD in_set_dropD)

lemma exec_append: "exec e (ls @ ls') s = exec e ls' (exec e ls s)"
  by (induction ls arbitrary: s) simp_all

subsection \<open>\<open>cleanupSession\<close> always returns\<close>

lemma cleanupSession_eq:
  "cleanupSession None dir s = Inr ((emit (Rm dir) s)\<lparr>fs := rm_rf dir (fs s)\<rparr>)"
  "cleanupSession (Some msg) dir s =
     Inr (logger Error (''Error cleaning up session: '' @ msg) (emit (Rm dir) s))"
  by (simp_all add: cleanupSession_def fs_rm_def)

lemma cleanupSession_calls:
  "cleanupSession r dir s =
     Inr (s\<lparr>fs := cleanup_fs r dir (fs s), trace := trace s @ cleanup_calls r dir\<rparr>)"
  by (cases r) (simp_all add: cleanupSession_def fs_rm_def emit_def logger_def)

lemma rm_rf_within: "within dir p \<Longrightarrow> rm_rf dir files p = None"
  by (simp add: rm_rf_def)




subsection \<open>Session directories\<close>




lemma credsPath_eq: "credsPath s = sessionDir s @ [''creds.json'']"
  by (simp add: credsPath_def path_join_def)

subsection \<open>Phone-number normalization\<close>

lemma formatPhoneNumber_kept: "list_all keep_char (formatPhoneNumber s)"
  by (auto simp: formatPhoneNumber_def Let_def list_all_iff keep_char_def is_digit_def
      dest: in_set_dropD)

lemma formatPhoneNumber_country_code: "country_code_match (formatPhoneNumber s)"
  by (simp add: formatPhoneNumber_def Let_def is_nonzero_digit_def is_digit_def)

lemma country_code_no_plus: "country_code_match r \<Longrightarrow> \<not> startsWith_plus r"
  by (cases r rule: country_code_match.cases) (auto simp: is_nonzero_digit_def)

lemma country_code_nonempty: "country_code_match r \<Longrightarrow> r \<noteq> []"
  by (cases r rule: country_code_match.cases) auto

lemma formatPhoneNumber_fixed:
  "list_all keep_char r \<Longrightarrow> country_code_match r \<Longrightarrow> formatPhoneNumber r = r"
  by (simp add: formatPhoneNumber_def Let_def country_code_no_plus list_all_iff)

lemma digits_iff_no_plus:
  "list_all keep_char r \<Longrightarrow> list_all is_digit r \<longleftrightarrow> CHR ''+'' \<notin> set r"
  by (auto simp: list_all_iff keep_char_def is_digit_def)

lemma formatPhoneNumber_plus:
  "CHR ''+'' \<in> set (formatPhoneNumber s) \<longleftrightarrow> CHR ''+'' \<in> set (drop 1 (filter keep_char s))"
proof (cases "filter keep_char s")
  case Nil
  then show ?thesis by (simp add: formatPhoneNumber_def Let_def)
next
  case (Cons c cs)
  then show ?thesis by (auto simp: formatPhoneNumber_def Let_def)
qed

text \<open>
  Claim C7, as the code has it. The first replace keeps every plus sign (its comment says
  so) and only one leading plus is stripped afterwards, so a plus sign further in
  survives: \<open>12+34\<close> is returned unchanged. What holds for every input: the result is
  the input with every character other than a digit or a plus sign removed and one
  leading plus sign stripped, prefixed with \<open>62\<close> unless that already begins with a
  non-zero digit followed by a digit. So the result is not empty, it is made of digits
  and plus signs only, and it begins with a non-zero digit followed by a digit (the
  country-code form that line 38 tests for). It is made of digits only exactly when no
  plus sign follows the first kept character of the input.
\<close>

theorem formatPhoneNumber_shape:
  "(let kept = filter keep_char s;
        rest = (if startsWith_plus kept then drop 1 kept else kept)
    in formatPhoneNumber s = (if country_code_match rest then rest else ''62'' @ rest)) \<and>
   formatPhoneNumber s \<noteq> [] \<and>
   list_all keep_char (formatPhoneNumber s) \<and>
   country_code_match (formatPhoneNumber s) \<and>
   (list_all is_digit (formatPhoneNumber s) \<longleftrightarrow>
      CHR ''+'' \<notin> set (drop 1 (filter keep_char s)))"
proof -
  have rel: "(let kept = filter keep_char s;
        rest = (if startsWith_plus kept then drop 1 kept else kept)
    in formatPhoneNumber s = (if country_code_match rest then rest else ''62'' @ rest))"
    by (simp add: formatPhoneNumber_def Let_def)
  have "list_all is_digit (formatPhoneNumber s) \<longleftrightarrow> CHR ''+'' \<notin> set (formatPhoneNumber s)"
    by (rule digits_iff_no_plus[OF formatPhoneNumber_kept])
  then have "formatPhoneNumber s \<noteq> [] \<and>
      list_all keep_char (formatPhoneNumber s) \<and>
      country_code_match (formatPhoneNumber s) \<and>
      (list_all is_digit (formatPhoneNumber s) \<longleftrightarrow>
         CHR ''+'' \<notin> set (drop 1 (filter keep_char s)))"
    by (simp add: formatPhoneNumber_kept formatPhoneNumber_country_code
        country_code_nonempty formatPhoneNumber_plus)
  with rel show ?thesis by (intro conjI) simp_all
qed

theorem formatPhoneNumber_shape_witness:
  "formatPhoneNumber ''+62 812-3456'' = ''628123456'' \<and>
   list_all is_digit (formatPhoneNumber ''+62 812-3456'') \<and>
   country_code_match (formatPhoneNumber ''+62 812-3456'') \<and>
   formatPhoneNumber ''263771234567'' = ''263771234567'' \<and>
   formatPhoneNumber ''0771-234 567'' = ''620771234567''"
  using formatPhoneNumber_shape[of "''+62 812-3456''"]
    formatPhoneNumber_shape[of "''263771234567''"]
    formatPhoneNumber_shape[of "''0771-234 567''"]
  by (simp add: formatPhoneNumber_def keep_char_def is_digit_def is_nonzero_digit_def)

text \<open>
  Claim C7 as the specification states it (a result of digits only, for every input)
  fails at the input \<open>12+34\<close>.
\<close>

theorem formatPhoneNumber_inner_plus_counterexample:
  "formatPhoneNumber ''12+34'' = ''12+34'' \<and>
   \<not> list_all is_digit (formatPhoneNumber ''12+34'')"
  by (simp add: formatPhoneNumber_def keep_char_def is_digit_def is_nonzero_digit_def)

text \<open>
  Claim C10: normalization is idempotent. A result contains only kept characters and
  already begins with a country code, so a second pass removes nothing, strips no plus
  sign and adds no prefix.
\<close>

theorem formatPhoneNumber_idempotent:
  "formatPhoneNumber (formatPhoneNumber s) = formatPhoneNumber s"
  by (rule formatPhoneNumber_fixed[OF formatPhoneNumber_kept formatPhoneNumber_country_code])

theorem formatPhoneNumber_idempotent_witness:
  "formatPhoneNumber (formatPhoneNumber ''0771234567'') = ''620771234567'' \<and>
   formatPhoneNumber ''0771234567'' = ''620771234567''"
  using formatPhoneNumber_idempotent[of "''0771234567''"]
  by (simp add: formatPhoneNumber_def keep_char_def is_digit_def is_nonzero_digit_def)

subsection \<open>Discarding storage\<close>




subsection \<open>The response channel\<close>

lemma handler_at_most_one: "at_most_one (handler e q files)"
  by (simp add: at_most_one_def handler_def initial_def split: option.splits)

lemma resume_handler:
  assumes "handler_kont k" and "responses s = []" and "timer s = None"
    and "\<not> conn_listener s" and "pending s = []" and "resume e k out s = Some s'"
  shows "at_most_one s'"
  using assms
  by (cases k; cases out)
     (auto simp: at_most_one_def cleanupSession_eq Let_def split: if_splits)

lemma resume_listener:
  assumes "\<not> handler_kont k" and "\<not> list_ex handler_kont (pending s)"
    and "length (responses s) \<le> 1" and "resume e k out s = Some s'"
  shows "\<not> list_ex handler_kont (pending s') \<and> length (responses s') \<le> 1"
  using assms
  by (cases k; cases out)
     (auto simp: cleanupSession_eq Let_def headersSent_def
        split: if_splits sum.splits option.splits)

lemma resume_appends:
  assumes "resume e k out s = Some s'"
  shows "\<exists>xs. responses s' = responses s @ xs"
  using assms
  by (cases k; cases out)
     (auto simp: cleanupSession_eq Let_def headersSent_def
        split: if_splits sum.splits option.splits)

lemma step_at_most_one:
  assumes inv: "at_most_one s"
  shows "at_most_one (step e l s)"
proof (cases "exited s \<noteq> None")
  case True
  with inv show ?thesis by (simp add: step_def)
next
  case alive: False
  show ?thesis
  proof (cases l)
    case (Settle i out)
    show ?thesis
    proof (cases "i < length (pending s)")
      case False
      with inv alive Settle show ?thesis by (simp add: step_def)
    next
      case True
      let ?s0 = "s\<lparr>pending := remove_nth i (pending s)\<rparr>"
      show ?thesis
      proof (cases "resume e (pending s ! i) out ?s0")
        case None
        with inv alive Settle True show ?thesis by (simp add: step_def)
      next
        case (Some s')
        have st: "step e l s = s'"
          using alive Settle True Some by (simp add: step_def)
        show ?thesis
        proof (cases "handler_kont (pending s ! i)")
          case hk: True
          with True have "list_ex handler_kont (pending s)"
            by (auto simp: list_ex_iff)
          with inv have one: "length (pending s) = 1" "responses s = []" "timer s = None"
            "\<not> conn_listener s"
            by (simp_all add: at_most_one_def)
          with True have "remove_nth i (pending s) = []"
            by (simp add: remove_nth_def)
          with one hk Some have "at_most_one s'"
            by (intro resume_handler[of "pending s ! i" ?s0 e out s']) simp_all
          with st show ?thesis by simp
        next
          case nk: False
          have "\<not> list_ex handler_kont (pending s)"
          proof
            assume ex: "list_ex handler_kont (pending s)"
            with inv have "length (pending s) = 1"
              by (simp add: at_most_one_def)
            with True have "pending s = [pending s ! i]"
              by (cases "pending s") simp_all
            with ex nk show False
              by (metis list_ex_iff list.set_intros(1) set_ConsD empty_iff list.set(1))
          qed
          then have "\<not> list_ex handler_kont (pending ?s0)"
            by (simp add: remove_nth_keeps)
          moreover from inv have "length (responses ?s0) \<le> 1"
            by (simp add: at_most_one_def)
          ultimately have
            "\<not> list_ex handler_kont (pending s') \<and> length (responses s') \<le> 1"
            using nk Some by (intro resume_listener[of "pending s ! i" ?s0 e out s']) simp_all
          with st show ?thesis by (simp add: at_most_one_def)
        qed
      qed
    qed
  next
    case (ConnectionUpdate c st)
    with inv alive show ?thesis
      by (auto simp: step_def at_most_one_def connection_update_def split: if_splits)
  next
    case (CredsUpdate c)
    with inv alive show ?thesis by (simp add: step_def at_most_one_def)
  next
    case Timeout
    with inv alive show ?thesis
      by (auto simp: step_def at_most_one_def timeout_callback_def
          split: option.splits if_splits)
  next
    case (Registered b)
    with inv alive show ?thesis by (simp add: step_def at_most_one_def)
  qed
qed

lemma exec_at_most_one: "at_most_one s \<Longrightarrow> at_most_one (exec e ls s)"
  by (induction ls arbitrary: s) (simp_all add: step_at_most_one)

lemma step_appends: "\<exists>xs. responses (step e l s) = responses s @ xs"
proof (cases l)
  case (Settle i out)
  show ?thesis
  proof (cases "resume e (pending s ! i) out (s\<lparr>pending := remove_nth i (pending s)\<rparr>)")
    case None
    with Settle show ?thesis by (simp add: step_def)
  next
    case (Some s')
    from resume_appends[OF Some] obtain xs where "responses s' = responses s @ xs"
      by auto
    with Settle Some show ?thesis by (simp add: step_def)
  qed
qed (simp_all add: step_def split: option.splits)

lemma exec_appends: "\<exists>xs. responses (exec e ls s) = responses s @ xs"
proof (induction ls arbitrary: s)
  case Nil
  show ?case by simp
next
  case (Cons l ls)
  from step_appends[of e l s] obtain xs where a: "responses (step e l s) = responses s @ xs"
    by blast
  from Cons.IH[of "step e l s"] obtain ys where
    "responses (exec e ls (step e l s)) = responses (step e l s) @ ys"
    by blast
  with a show ?case by simp
qed

text \<open>
  Claim C3: at most one response is written to the caller, whatever the environment does
  and in whatever order the suspended functions resume (the labels may interleave the
  timer callback, the listeners and their awaits freely). Once a response has been
  written, no later transition writes another: the two writes that can come after a
  first one, the timeout report of line 151 and the initialization report of line 159,
  both test \<open>res.headersSent\<close> in the segment that writes.
\<close>

theorem at_most_one_response:
  "length (responses (exec e ls (handler e q files))) \<le> 1 \<and>
   (responses (exec e ls (handler e q files)) \<noteq> [] \<longrightarrow>
      responses (exec e (ls @ ls') (handler e q files)) =
      responses (exec e ls (handler e q files)))"
proof -
  let ?s = "exec e ls (handler e q files)"
  have one: "length (responses ?s) \<le> 1"
    using exec_at_most_one[OF handler_at_most_one] by (simp add: at_most_one_def)
  have "length (responses (exec e ls' ?s)) \<le> 1"
    using exec_at_most_one[OF exec_at_most_one[OF handler_at_most_one]]
    by (simp add: at_most_one_def)
  moreover obtain xs where "responses (exec e ls' ?s) = responses ?s @ xs"
    using exec_appends by blast
  ultimately have "responses ?s \<noteq> [] \<longrightarrow> responses (exec e ls' ?s) = responses ?s"
    by (cases "responses ?s") auto
  with one show ?thesis by (simp add: exec_append)
qed

theorem at_most_one_response_witness:
  "responses (exec example_env
      [Settle 0 Done, Settle 0 (AuthLoaded True), Registered False, Timeout,
       ConnectionUpdate Close (Some 401), Settle 1 Done, Settle 0 Done]
      (handler example_env (Some ''0771234567'') example_files)) =
     [(408, ErrorBody ''Session initialization timed out'')] \<and>
   responses (exec example_env
      ([Settle 0 Done, Settle 0 (AuthLoaded True), Registered False, Timeout,
        ConnectionUpdate Close (Some 401), Settle 1 Done, Settle 0 Done] @
       [ConnectionUpdate Close None, Settle 0 Done, Timeout])
      (handler example_env (Some ''0771234567'') example_files)) =
     [(408, ErrorBody ''Session initialization timed out'')]"
  using at_most_one_response[of example_env
      "[Settle 0 Done, Settle 0 (AuthLoaded True), Registered False, Timeout,
        ConnectionUpdate Close (Some 401), Settle 1 Done, Settle 0 Done]"
      "Some ''0771234567''" example_files
      "[ConnectionUpdate Close None, Settle 0 Done, Timeout]"]
  by (simp add: handler_def initial_def step_def cleanupSession_calls suspend_def
      logger_def emit_def respond_def remove_nth_def install_handlers_def
      connection_update_def timeout_callback_def headersSent_def unhandledRejection_def)

subsection \<open>The request handler, run to its end\<close>

lemma pairing_rejected_state:
  assumes "n \<noteq> []"
  shows "request e (Some n) files
           [settled r1, AuthLoaded False, Done, Failed msg, settled r2] =
         \<lparr>fs = cleanup_fs r2 (sessionDir_of e n)
                 (mkdir (sessionDir_of e n)
                   (cleanup_fs r1 (sessionDir_of e n) files)),
          number = formatPhoneNumber n,
          sessionDir = sessionDir_of e n,
          registered = False, creds_listener = False, conn_listener = False,
          timer = None, pending = [],
          responses = [(500, ErrorBody ''Failed to generate pairing code'')],
          exited = None,
          trace = cleanup_calls r1 (sessionDir_of e n) @
                  [UseMultiFileAuthState (sessionDir_of e n),
                   MakeWASocket SESSION_TIMEOUT, Delay 2000,
                   RequestPairingCode (formatPhoneNumber n),
                   Log Error (''Pairing error: '' @ msg)] @
                  cleanup_calls r2 (sessionDir_of e n) @
                  [Respond 500 (ErrorBody ''Failed to generate pairing code'')]\<rparr>"
  using assms
  by (simp add: request_def handler_def initial_def step_def cleanupSession_calls
        suspend_def logger_def emit_def respond_def remove_nth_def)

lemma pairing_code_state:
  assumes "n \<noteq> []"
  shows "request e (Some n) files [settled r1, AuthLoaded False, Done, Code c] =
         \<lparr>fs = mkdir (sessionDir_of e n)
                   (cleanup_fs r1 (sessionDir_of e n) files),
          number = formatPhoneNumber n,
          sessionDir = sessionDir_of e n,
          registered = False, creds_listener = False, conn_listener = False,
          timer = None, pending = [],
          responses = [(200, PairingBody c)],
          exited = None,
          trace = cleanup_calls r1 (sessionDir_of e n) @
                  [UseMultiFileAuthState (sessionDir_of e n),
                   MakeWASocket SESSION_TIMEOUT, Delay 2000,
                   RequestPairingCode (formatPhoneNumber n),
                   Respond 200 (PairingBody c)]\<rparr>"
  using assms
  by (simp add: request_def handler_def initial_def step_def cleanupSession_calls
        suspend_def logger_def emit_def respond_def remove_nth_def)

lemma registered_state:
  assumes "n \<noteq> []"
  shows "request e (Some n) files [settled r1, AuthLoaded True] =
         \<lparr>fs = mkdir (sessionDir_of e n)
                   (cleanup_fs r1 (sessionDir_of e n) files),
          number = n,
          sessionDir = sessionDir_of e n,
          registered = True, creds_listener = True, conn_listener = True,
          timer = Some SESSION_TIMEOUT, pending = [],
          responses = [],
          exited = None,
          trace = cleanup_calls r1 (sessionDir_of e n) @
                  [UseMultiFileAuthState (sessionDir_of e n),
                   MakeWASocket SESSION_TIMEOUT, On ''creds.update'',
                   On ''connection.update'', SetTimeout SESSION_TIMEOUT]\<rparr>"
  using assms
  by (simp add: request_def handler_def initial_def step_def cleanupSession_calls
        suspend_def logger_def emit_def respond_def remove_nth_def install_handlers_def)

lemma idle_step: "idle s \<Longrightarrow> \<exists>b. step e l s = s\<lparr>registered := b\<rparr>"
proof (cases l)
  case (Registered b)
  assume "idle s"
  show ?thesis
  proof (cases "exited s")
    case None
    with Registered have "step e l s = s\<lparr>registered := b\<rparr>"
      by (simp add: step_def)
    then show ?thesis by blast
  next
    case (Some c)
    with Registered have "step e l s = s\<lparr>registered := registered s\<rparr>"
      by (simp add: step_def)
    then show ?thesis by blast
  qed
next
  case (Settle i out)
  assume "idle s"
  with Settle have "step e l s = s\<lparr>registered := registered s\<rparr>"
    by (simp add: step_def idle_def)
  then show ?thesis by blast
next
  case (ConnectionUpdate c st)
  assume "idle s"
  with ConnectionUpdate have "step e l s = s\<lparr>registered := registered s\<rparr>"
    by (simp add: step_def idle_def)
  then show ?thesis by blast
next
  case (CredsUpdate c)
  assume "idle s"
  with CredsUpdate have "step e l s = s\<lparr>registered := registered s\<rparr>"
    by (simp add: step_def idle_def)
  then show ?thesis by blast
next
  case Timeout
  assume "idle s"
  with Timeout have "step e l s = s\<lparr>registered := registered s\<rparr>"
    by (simp add: step_def idle_def)
  then show ?thesis by blast
qed

lemma idle_exec: "idle s \<Longrightarrow> \<exists>b. exec e ls s = s\<lparr>registered := b\<rparr>"
proof (induction ls arbitrary: s)
  case Nil
  have "exec e [] s = s\<lparr>registered := registered s\<rparr>" by simp
  then show ?case by blast
next
  case (Cons l ls)
  from idle_step[OF Cons.prems] obtain b where b: "step e l s = s\<lparr>registered := b\<rparr>"
    by blast
  from Cons.prems have "idle (s\<lparr>registered := b\<rparr>)"
    by (simp add: idle_def)
  from Cons.IH[OF this] obtain b' where
    "exec e ls (s\<lparr>registered := b\<rparr>) = s\<lparr>registered := b, registered := b'\<rparr>"
    by blast
  with b have "exec e (l # ls) s = s\<lparr>registered := b'\<rparr>" by simp
  then show ?case by blast
qed

lemma idle_forever:
  assumes "idle s"
  shows "responses (exec e ls s) = responses s \<and> trace (exec e ls s) = trace s \<and>
    fs (exec e ls s) = fs s \<and> exited (exec e ls s) = exited s"
proof -
  from idle_exec[OF assms] obtain b where "exec e ls s = s\<lparr>registered := b\<rparr>"
    by blast
  then show ?thesis by simp
qed

text \<open>
  Claim C9: when the remote rejects the pairing-code request, the error is logged, the
  session directory is discarded (nothing is left at or below it when the removal
  succeeds), and the caller receives status 500 with the message
  \<open>Failed to generate pairing code\<close> as the only response. The attempt is over: no
  listener is installed, no timer is armed and nothing is suspended, so no later event
  writes a response, makes a call or touches the files.
\<close>

theorem pairing_code_rejected:
  assumes "n \<noteq> []"
  shows "(let dir = sessionDir_of e n;
              s = request e (Some n) files
                    [settled r1, AuthLoaded False, Done, Failed msg, settled r2]
          in responses s = [(500, ErrorBody ''Failed to generate pairing code'')] \<and>
             trace s =
               cleanup_calls r1 dir @
               [UseMultiFileAuthState dir, MakeWASocket SESSION_TIMEOUT, Delay 2000,
                RequestPairingCode (formatPhoneNumber n),
                Log Error (''Pairing error: '' @ msg)] @
               cleanup_calls r2 dir @
               [Respond 500 (ErrorBody ''Failed to generate pairing code'')] \<and>
             (r2 = None \<longrightarrow> (\<forall>p. within dir p \<longrightarrow> fs s p = None)) \<and>
             idle s \<and> exited s = None \<and>
             (\<forall>ls. responses (exec e ls s) = responses s \<and>
                   trace (exec e ls s) = trace s \<and>
                   fs (exec e ls s) = fs s))"
proof -
  let ?s = "request e (Some n) files
              [settled r1, AuthLoaded False, Done, Failed msg, settled r2]"
  note st = pairing_rejected_state[OF assms, of e files r1 msg r2]
  have i: "idle ?s" by (simp add: st idle_def)
  have "\<forall>ls. responses (exec e ls ?s) = responses ?s \<and> trace (exec e ls ?s) = trace ?s \<and>
      fs (exec e ls ?s) = fs ?s"
    using idle_forever[OF i] by blast
  moreover have "responses ?s = [(500, ErrorBody ''Failed to generate pairing code'')]"
    by (simp add: st)
  moreover have "trace ?s =
      cleanup_calls r1 (sessionDir_of e n) @
      [UseMultiFileAuthState (sessionDir_of e n),
       MakeWASocket SESSION_TIMEOUT, Delay 2000,
       RequestPairingCode (formatPhoneNumber n), Log Error (''Pairing error: '' @ msg)] @
      cleanup_calls r2 (sessionDir_of e n) @
      [Respond 500 (ErrorBody ''Failed to generate pairing code'')]"
    by (simp add: st)
  moreover have "r2 = None \<longrightarrow>
      (\<forall>p. within (sessionDir_of e n) p \<longrightarrow> fs ?s p = None)"
    using st by (cases r2) (simp_all add: rm_rf_within)
  moreover have "exited ?s = None" by (simp add: st)
  ultimately show ?thesis using i by (simp add: Let_def)
qed

theorem pairing_code_rejected_witness:
  "''0771234567'' \<noteq> [] \<and>
   responses (request example_env (Some ''0771234567'') example_files
      [settled None, AuthLoaded False, Done, Failed ''rate-overlimit'', settled None]) =
     [(500, ErrorBody ''Failed to generate pairing code'')] \<and>
   trace (request example_env (Some ''0771234567'') example_files
      [settled None, AuthLoaded False, Done, Failed ''rate-overlimit'', settled None]) =
     [Rm [''app'', ''session_0771234567''],
      UseMultiFileAuthState [''app'', ''session_0771234567''],
      MakeWASocket 300000, Delay 2000, RequestPairingCode ''620771234567'',
      Log Error ''Pairing error: rate-overlimit'', Rm [''app'', ''session_0771234567''],
      Respond 500 (ErrorBody ''Failed to generate pairing code'')] \<and>
   within [''app'', ''session_0771234567''] [''app'', ''session_0771234567''] \<and>
   fs (request example_env (Some ''0771234567'') example_files
      [settled None, AuthLoaded False, Done, Failed ''rate-overlimit'', settled None])
     [''app'', ''session_0771234567''] = None"
  using pairing_code_rejected[of "''0771234567''" example_env example_files None
      "''rate-overlimit''" None]
  by (simp add: Let_def example_env_def within_def SESSION_TIMEOUT_def
      sessionDir_of_def path_join_def resolve_def
      formatPhoneNumber_def keep_char_def is_digit_def is_nonzero_digit_def)

subsection \<open>The listeners and the timer callback, where they are installed\<close>

text \<open>
  What the code of lines 92-154 does in a state in which it has been installed and the
  process is alive. The claims about it are settled in the next subsection, since the
  ordinary attempt never installs it.
\<close>

lemma unauthorized_close_branch:
  assumes "conn_listener s" and "exited s = None"
  shows "uninterrupted e (ConnectionUpdate Close (Some 401)) [settled r] s =
     s\<lparr>fs := cleanup_fs r (sessionDir s) (fs s),
       trace := trace s @ [Log Error ''Authentication failed, please restart'']
                  @ cleanup_calls r (sessionDir s)\<rparr>"
  using assms
  by (simp add: uninterrupted_def step_def connection_update_def cleanupSession_calls
      suspend_def logger_def emit_def)

lemma credential_transfer_sequence:
  assumes "conn_listener s" and "exited s = None"
    and "fs s (sessionDir s @ [''creds.json'']) = Some (File d)"
  shows "uninterrupted e (ConnectionUpdate Open st)
          [Done, Done, Done, Done, Done, settled r] s =
        s\<lparr>fs := cleanup_fs r (sessionDir s) (fs s), exited := Some 0,
          trace := trace s @
            [Log Info ''Connection established'', Delay 5000,
             ReadFile (sessionDir s @ [''creds.json'']),
             SendMessage (jidNormalizedUser e (number s @ ''@s.whatsapp.net''))
               (Document d ''application/json'' ''creds.json''),
             SendMessage (jidNormalizedUser e (number s @ ''@s.whatsapp.net''))
               (Text advisory),
             Delay 1000] @
            cleanup_calls r (sessionDir s) @ [Exit 0]\<rparr>"
  using assms
  by (simp add: uninterrupted_def step_def connection_update_def cleanupSession_calls
      suspend_def logger_def emit_def readFile_def process_exit_def credsPath_eq
      userJid_def)

lemma credential_transfer_read_failure:
  assumes "conn_listener s" and "exited s = None"
  shows "uninterrupted e (ConnectionUpdate Open st) [Done, Failed msg, settled r] s =
        s\<lparr>fs := cleanup_fs r (sessionDir s) (fs s), exited := Some 1,
          trace := trace s @
            [Log Info ''Connection established'', Delay 5000,
             ReadFile (sessionDir s @ [''creds.json'']),
             Log Error (''Session transfer error: '' @ msg)] @
            cleanup_calls r (sessionDir s) @ [Exit 1]\<rparr>"
  using assms
  by (simp add: uninterrupted_def step_def connection_update_def cleanupSession_calls
      suspend_def logger_def emit_def readFile_def process_exit_def transfer_error_def
      credsPath_eq)

lemma credential_transfer_send_failure:
  assumes "conn_listener s" and "exited s = None"
    and "fs s (sessionDir s @ [''creds.json'']) = Some (File d)"
  shows "uninterrupted e (ConnectionUpdate Open st) [Done, Done, Failed msg, settled r] s =
        s\<lparr>fs := cleanup_fs r (sessionDir s) (fs s), exited := Some 1,
          trace := trace s @
            [Log Info ''Connection established'', Delay 5000,
             ReadFile (sessionDir s @ [''creds.json'']),
             SendMessage (jidNormalizedUser e (number s @ ''@s.whatsapp.net''))
               (Document d ''application/json'' ''creds.json''),
             Log Error (''Session transfer error: '' @ msg)] @
            cleanup_calls r (sessionDir s) @ [Exit 1]\<rparr>"
  using assms
  by (simp add: uninterrupted_def step_def connection_update_def cleanupSession_calls
      suspend_def logger_def emit_def readFile_def process_exit_def transfer_error_def
      credsPath_eq userJid_def)

lemma timeout_guard:
  assumes "timer s = Some t" and "exited s = None" and "\<not> registered s"
  shows "uninterrupted e Timeout [settled r] s =
     (if responses s = []
      then s\<lparr>fs := cleanup_fs r (sessionDir s) (fs s), timer := None,
             responses := [(408, ErrorBody ''Session initialization timed out'')],
             trace := trace s @ [Log Warn ''Session initialization timed out''] @
                      cleanup_calls r (sessionDir s) @
                      [Respond 408 (ErrorBody ''Session initialization timed out'')]\<rparr>
      else s\<lparr>fs := cleanup_fs r (sessionDir s) (fs s), timer := None,
             trace := trace s @ [Log Warn ''Session initialization timed out''] @
                      cleanup_calls r (sessionDir s)\<rparr>)"
  using assms
  by (simp add: uninterrupted_def step_def timeout_callback_def cleanupSession_calls
      suspend_def logger_def emit_def respond_def headersSent_def)

lemma reconnect_branch:
  assumes "conn_listener s" and "exited s = None" and "st \<noteq> Some 401"
  shows "uninterrupted e (ConnectionUpdate Close st) [Done] s =
     s\<lparr>trace := trace s @
          [Log Info ''Attempting to reconnect...'', Delay RECONNECT_INTERVAL,
           RouterGet ''/'', Log Error (''Unhandled Rejection: '' @ router_get_error e)]\<rparr>"
  using assms
  by (simp add: uninterrupted_def step_def connection_update_def suspend_def logger_def
      emit_def unhandledRejection_def)

lemma step_unobserved:
  "\<not> conn_listener s \<Longrightarrow> step e (ConnectionUpdate c st) s = s"
  "pending s = [] \<Longrightarrow> step e (Settle i out) s = s"
  "timer s = None \<Longrightarrow> step e Timeout s = s"
  "\<not> creds_listener s \<Longrightarrow> step e (CredsUpdate d) s = s"
  by (simp_all add: step_def)

subsection \<open>What the early return of lines 77 and 85 leaves out\<close>

text \<open>
  Both branches of the pairing block return from the handler, so lines 90 to 154 run
  only when line 71 found the credentials registered. After a pairing code has been
  surfaced no listener is installed and no timer is armed. The five claims below are
  about what those lines do for every attempt; each fails on the ordinary attempt.

  Claim C1 does not hold of the code: for the request \<open>GET /?number=0771234567\<close> whose
  fresh credentials are not registered and whose pairing-code request resolves with
  \<open>ABCD1234\<close>, the code is the response, and a later open event (with every await of a
  transfer settling) changes nothing: no credentials are read and no message is sent.
\<close>

theorem open_after_pairing_code_unobserved:
  "(let s = request e (Some ''0771234567'') files
              [Done, AuthLoaded False, Done, Code ''ABCD1234'']
    in responses s = [(200, PairingBody ''ABCD1234'')] \<and>
       conn_listener s = False \<and> creds_listener s = False \<and> pending s = [] \<and>
       uninterrupted e (ConnectionUpdate Open None) [Done, Done, Done, Done, Done, Done] s = s)"
proof -
  let ?s = "request e (Some ''0771234567'') files
              [Done, AuthLoaded False, Done, Code ''ABCD1234'']"
  note st = pairing_code_state[of "''0771234567''" e files None "''ABCD1234''", simplified]
  have resp: "responses ?s = [(200, PairingBody ''ABCD1234'')]"
    by (simp add: st)
  have off: "conn_listener ?s = False" "creds_listener ?s = False" "pending ?s = []"
    by (simp_all add: st)
  have "uninterrupted e (ConnectionUpdate Open None) [Done, Done, Done, Done, Done, Done] ?s = ?s"
    using off by (simp add: uninterrupted_def step_unobserved)
  with resp off show ?thesis
    unfolding Let_def by (intro conjI)
qed

text \<open>
  Claim C2 does not hold of the code. In the same attempt a close event with status code
  500 changes nothing: there is no backoff and no new initialization. Where the listener
  does exist (line 71 found the credentials registered; here the library has cleared the
  flag since, so registration has not completed), the close branch logs, waits
  \<open>RECONNECT_INTERVAL\<close> and calls \<open>router.get\<close>, whose error ends up in the log, and
  that is all: the trace gains no \<open>cleanupSession\<close>, no \<open>useMultiFileAuthState\<close> and
  no \<open>makeWASocket\<close> call, so the session is not prepared again and no new client is
  opened.
\<close>

theorem close_does_not_reinitialize:
  "(let s = request e (Some ''0771234567'') files
              [Done, AuthLoaded False, Done, Code ''ABCD1234'']
    in uninterrupted e (ConnectionUpdate Close (Some 500)) [Done] s = s) \<and>
   (let s = exec e [Registered False]
              (request e (Some ''0771234567'') files [Done, AuthLoaded True])
    in conn_listener s = True \<and> registered s = False \<and>
       uninterrupted e (ConnectionUpdate Close (Some 500)) [Done] s =
       s\<lparr>trace := trace s @
            [Log Info ''Attempting to reconnect...'', Delay RECONNECT_INTERVAL,
             RouterGet ''/'', Log Error (''Unhandled Rejection: '' @ router_get_error e)]\<rparr>)"
proof -
  let ?s = "request e (Some ''0771234567'') files
              [Done, AuthLoaded False, Done, Code ''ABCD1234'']"
  let ?t = "exec e [Registered False]
              (request e (Some ''0771234567'') files [Done, AuthLoaded True])"
  note st = pairing_code_state[of "''0771234567''" e files None "''ABCD1234''", simplified]
  note rt = registered_state[of "''0771234567''" e files None, simplified]
  have off: "conn_listener ?s = False" "pending ?s = []"
    by (simp_all add: st)
  have a: "uninterrupted e (ConnectionUpdate Close (Some 500)) [Done] ?s = ?s"
    using off by (simp add: uninterrupted_def step_unobserved)
  have on: "conn_listener ?t = True" "registered ?t = False" "exited ?t = None"
    by (simp_all add: rt step_def)
  have b: "uninterrupted e (ConnectionUpdate Close (Some 500)) [Done] ?t =
      ?t\<lparr>trace := trace ?t @
            [Log Info ''Attempting to reconnect...'', Delay RECONNECT_INTERVAL,
             RouterGet ''/'', Log Error (''Unhandled Rejection: '' @ router_get_error e)]\<rparr>"
    using on reconnect_branch[of ?t "Some 500" e] by simp
  show ?thesis
    unfolding Let_def using a on(1,2) b by (intro conjI)
qed

text \<open>
  Claim C4 does not hold of the code. In the same attempt no timer is armed: the
  credentials are still not registered, the session directory exists, and whatever
  happens afterwards the directory stays, the pairing code remains the only response and
  no call is made. (When the timer is armed, on the path where line 71 found the
  credentials registered, its bound is \<open>SESSION_TIMEOUT\<close> and its callback behaves as
  \<open>timeout_guard\<close> states.)
\<close>

theorem no_timeout_guard_after_pairing_code:
  "(let s = request e (Some ''0771234567'') files
              [Done, AuthLoaded False, Done, Code ''ABCD1234'']
    in timer s = None \<and> registered s = False \<and> fs s (sessionDir s) = Some Dir \<and>
       step e Timeout s = s \<and>
       (\<forall>ls. fs (exec e ls s) (sessionDir s) = Some Dir \<and>
             responses (exec e ls s) = [(200, PairingBody ''ABCD1234'')] \<and>
             trace (exec e ls s) = trace s))"
proof -
  let ?s = "request e (Some ''0771234567'') files
              [Done, AuthLoaded False, Done, Code ''ABCD1234'']"
  note st = pairing_code_state[of "''0771234567''" e files None "''ABCD1234''", simplified]
  have i: "idle ?s" by (simp add: st idle_def)
  have dir: "fs ?s (sessionDir ?s) = Some Dir"
    by (simp add: st mkdir_def rm_rf_def within_def)
  have resp: "responses ?s = [(200, PairingBody ''ABCD1234'')]"
    by (simp add: st)
  have "\<forall>ls. fs (exec e ls ?s) (sessionDir ?s) = Some Dir \<and>
      responses (exec e ls ?s) = [(200, PairingBody ''ABCD1234'')] \<and>
      trace (exec e ls ?s) = trace ?s"
    using idle_forever[OF i] dir resp by simp
  moreover have "timer ?s = None" "registered ?s = False" by (simp_all add: st)
  moreover have "step e Timeout ?s = ?s" by (simp add: st step_def)
  ultimately show ?thesis
    unfolding Let_def using dir by (intro conjI)
qed

text \<open>
  Claim C5 does not hold of the code. In the same attempt a close event with status code
  401 changes nothing: no authentication failure is logged and the session directory
  stays. Where the listener does exist (here the first cleanup failed, so credentials of
  an earlier run could be loaded as registered), the 401 branch logs and cleans up
  (lemma \<open>unauthorized_close_branch\<close>), and afterwards both listeners and the timer
  are still installed and the process is alive: the code has no closed state.
\<close>

theorem unauthorized_close_after_pairing_code_unobserved:
  "(let s = request e (Some ''0771234567'') files
              [Done, AuthLoaded False, Done, Code ''ABCD1234'']
    in conn_listener s = False \<and> fs s (sessionDir s) = Some Dir \<and>
       uninterrupted e (ConnectionUpdate Close (Some 401)) [Done] s = s) \<and>
   (let t = uninterrupted e (ConnectionUpdate Close (Some 401)) [Done]
              (request e (Some ''0771234567'') files [Failed ''EPERM'', AuthLoaded True])
    in conn_listener t = True \<and> creds_listener t = True \<and>
       timer t = Some SESSION_TIMEOUT \<and> exited t = None)"
proof -
  let ?s = "request e (Some ''0771234567'') files
              [Done, AuthLoaded False, Done, Code ''ABCD1234'']"
  let ?r = "request e (Some ''0771234567'') files [Failed ''EPERM'', AuthLoaded True]"
  let ?t = "uninterrupted e (ConnectionUpdate Close (Some 401)) [Done] ?r"
  note st = pairing_code_state[of "''0771234567''" e files None "''ABCD1234''", simplified]
  note rt = registered_state[of "''0771234567''" e files "Some ''EPERM''", simplified]
  have off: "conn_listener ?s = False" "pending ?s = []"
    by (simp_all add: st)
  have dir: "fs ?s (sessionDir ?s) = Some Dir"
    by (simp add: st mkdir_def rm_rf_def within_def)
  have same: "uninterrupted e (ConnectionUpdate Close (Some 401)) [Done] ?s = ?s"
    using off by (simp add: uninterrupted_def step_unobserved)
  have on: "conn_listener ?r" "exited ?r = None"
    by (simp_all add: rt)
  have "?t = ?r\<lparr>fs := cleanup_fs None (sessionDir ?r) (fs ?r),
                 trace := trace ?r @ [Log Error ''Authentication failed, please restart'']
                            @ cleanup_calls None (sessionDir ?r)\<rparr>"
    using unauthorized_close_branch[OF on, of e None] by simp
  then have still: "conn_listener ?t = True" "creds_listener ?t = True"
    "timer ?t = Some SESSION_TIMEOUT" "exited ?t = None"
    by (simp_all add: rt)
  show ?thesis
    unfolding Let_def using off(1) dir same still by (intro conjI)
qed

text \<open>
  Claim C6 does not hold of the code. In the same attempt the socket's credential updates
  are not saved (no \<open>creds.json\<close> exists in the session directory), and an open event
  performs none of the steps, whether the awaits of a transfer would all resolve or the
  read would fail: no delay, no read, no message, no cleanup and no exit; the process
  stays alive and the session directory stays. Where the listener does exist, it makes
  the calls in the order the claim gives (lemmas \<open>credential_transfer_sequence\<close>,
  \<open>credential_transfer_read_failure\<close> and \<open>credential_transfer_send_failure\<close>).
\<close>

theorem credential_transfer_after_pairing_code_unobserved:
  "(let s = request e (Some ''0771234567'') files
              [Done, AuthLoaded False, Done, Code ''ABCD1234'']
    in step e (CredsUpdate ''{}'') s = s \<and>
       fs s (credsPath s) = None \<and>
       uninterrupted e (ConnectionUpdate Open None) [Done, Done, Done, Done, Done, Done] s = s \<and>
       uninterrupted e (ConnectionUpdate Open None) [Done, Failed ''ENOENT'', Done] s = s \<and>
       exited s = None \<and> fs s (sessionDir s) = Some Dir \<and>
       trace s =
         [Rm (sessionDir_of e ''0771234567''),
          UseMultiFileAuthState (sessionDir_of e ''0771234567''),
          MakeWASocket SESSION_TIMEOUT, Delay 2000,
          RequestPairingCode ''620771234567'',
          Respond 200 (PairingBody ''ABCD1234'')])"
proof -
  let ?s = "request e (Some ''0771234567'') files
              [Done, AuthLoaded False, Done, Code ''ABCD1234'']"
  note st = pairing_code_state[of "''0771234567''" e files None "''ABCD1234''", simplified]
  have off: "conn_listener ?s = False" "creds_listener ?s = False" "pending ?s = []"
    by (simp_all add: st)
  have unsaved: "step e (CredsUpdate ''{}'') ?s = ?s"
    using off by (simp add: step_unobserved)
  have none: "fs ?s (credsPath ?s) = None"
    by (simp add: st credsPath_eq mkdir_def rm_rf_def within_def)
  have ok: "uninterrupted e (ConnectionUpdate Open None)
      [Done, Done, Done, Done, Done, Done] ?s = ?s"
    using off by (simp add: uninterrupted_def step_unobserved)
  have bad: "uninterrupted e (ConnectionUpdate Open None) [Done, Failed ''ENOENT'', Done] ?s = ?s"
    using off by (simp add: uninterrupted_def step_unobserved)
  have alive: "exited ?s = None"
    by (simp add: st)
  have dir: "fs ?s (sessionDir ?s) = Some Dir"
    by (simp add: st mkdir_def rm_rf_def within_def)
  have tr: "trace ?s =
         [Rm (sessionDir_of e ''0771234567''),
          UseMultiFileAuthState (sessionDir_of e ''0771234567''),
          MakeWASocket SESSION_TIMEOUT, Delay 2000,
          RequestPairingCode ''620771234567'',
          Respond 200 (PairingBody ''ABCD1234'')]"
    by (simp add: st formatPhoneNumber_def keep_char_def is_digit_def is_nonzero_digit_def)
  show ?thesis
    unfolding Let_def using unsaved none ok bad alive dir tr by (intro conjI)
qed

end
